theory Spec2Isabelle
  imports Main "HOL-Library.Word" "HOL-Library.Signed_Division"
begin

section \<open>Go values shared by the embedded files\<close>

text \<open>
  A Go function either returns or panics (a nil pointer dereference, a write to a nil
  map). The panic is a value of the model.
\<close>

datatype 'a outcome = Return 'a | Panic

text \<open>
  \<open>time.Duration\<close> is an \<open>int64\<close> count of nanoseconds: a 64-bit word read with
  \<open>sint\<close>. Negation and division are Go's: negation wraps at the minimum value,
  division truncates towards zero.
\<close>

type_synonym Duration = "64 word"

definition Millisecond :: Duration where
  "Millisecond = 1000000"

definition Second :: Duration where
  "Second = 1000000000"

definition Hour :: Duration where
  "Hour = 3600000000000"

definition duration_div :: "Duration \<Rightarrow> Duration \<Rightarrow> Duration" where
  "duration_div a b = word_of_int (sint a sdiv sint b)"

text \<open>
  \<open>time.Time\<close> is an instant. It is modelled as an integer count of nanoseconds on an
  unbounded line: the library keeps seconds in an \<open>int64\<close> (about 292 billion years
  either way), which this model does not bound. \<open>Time.Add\<close> moves the instant by a
  duration, \<open>Time.After\<close> is the strict order of instants.
\<close>

type_synonym Time = int

definition Time_Add :: "Time \<Rightarrow> Duration \<Rightarrow> Time" where
  "Time_Add t d = t + sint d"

definition Time_After :: "Time \<Rightarrow> Time \<Rightarrow> bool" where
  "Time_After t u = (u < t)"

section \<open>The failure envelope (package keppel, type RegistryV2Error)\<close>

text \<open>\<open>type RegistryV2ErrorCode string\<close>, and its eighteen constants.\<close>

type_synonym RegistryV2ErrorCode = string

definition ErrBlobUnknown :: RegistryV2ErrorCode where
  "ErrBlobUnknown = ''BLOB_UNKNOWN''"
definition ErrBlobUploadInvalid :: RegistryV2ErrorCode where
  "ErrBlobUploadInvalid = ''BLOB_UPLOAD_INVALID''"
definition ErrBlobUploadUnknown :: RegistryV2ErrorCode where
  "ErrBlobUploadUnknown = ''BLOB_UPLOAD_UNKNOWN''"
definition ErrDigestInvalid :: RegistryV2ErrorCode where
  "ErrDigestInvalid = ''DIGEST_INVALID''"
definition ErrManifestBlobUnknown :: RegistryV2ErrorCode where
  "ErrManifestBlobUnknown = ''MANIFEST_BLOB_UNKNOWN''"
definition ErrManifestInvalid :: RegistryV2ErrorCode where
  "ErrManifestInvalid = ''MANIFEST_INVALID''"
definition ErrManifestUnknown :: RegistryV2ErrorCode where
  "ErrManifestUnknown = ''MANIFEST_UNKNOWN''"
definition ErrManifestUnverified :: RegistryV2ErrorCode where
  "ErrManifestUnverified = ''MANIFEST_UNVERIFIED''"
definition ErrNameInvalid :: RegistryV2ErrorCode where
  "ErrNameInvalid = ''NAME_INVALID''"
definition ErrNameUnknown :: RegistryV2ErrorCode where
  "ErrNameUnknown = ''NAME_UNKNOWN''"
definition ErrSizeInvalid :: RegistryV2ErrorCode where
  "ErrSizeInvalid = ''SIZE_INVALID''"
definition ErrTagInvalid :: RegistryV2ErrorCode where
  "ErrTagInvalid = ''TAG_INVALID''"
definition ErrUnauthorized :: RegistryV2ErrorCode where
  "ErrUnauthorized = ''UNAUTHORIZED''"
definition ErrDenied :: RegistryV2ErrorCode where
  "ErrDenied = ''DENIED''"
definition ErrUnsupported :: RegistryV2ErrorCode where
  "ErrUnsupported = ''UNSUPPORTED''"
definition ErrUnknown :: RegistryV2ErrorCode where
  "ErrUnknown = ''UNKNOWN''"
definition ErrUnavailable :: RegistryV2ErrorCode where
  "ErrUnavailable = ''UNAVAILABLE''"
definition ErrTooManyRequests :: RegistryV2ErrorCode where
  "ErrTooManyRequests = ''TOOMANYREQUESTS''"

text \<open>The constants of the \<open>const\<close> block, in the order of the source.\<close>

definition error_codes :: "RegistryV2ErrorCode list" where
  "error_codes =
    [ErrBlobUnknown, ErrBlobUploadInvalid, ErrBlobUploadUnknown, ErrDigestInvalid,
     ErrManifestBlobUnknown, ErrManifestInvalid, ErrManifestUnknown, ErrManifestUnverified,
     ErrNameInvalid, ErrNameUnknown, ErrSizeInvalid, ErrTagInvalid, ErrUnauthorized,
     ErrDenied, ErrUnsupported, ErrUnknown, ErrUnavailable, ErrTooManyRequests]"

text \<open>The status constants of \<open>net/http\<close> that the table uses.\<close>

definition StatusBadRequest :: int where "StatusBadRequest = 400"
definition StatusUnauthorized :: int where "StatusUnauthorized = 401"
definition StatusForbidden :: int where "StatusForbidden = 403"
definition StatusNotFound :: int where "StatusNotFound = 404"
definition StatusMethodNotAllowed :: int where "StatusMethodNotAllowed = 405"
definition StatusTooManyRequests :: int where "StatusTooManyRequests = 429"
definition StatusInternalServerError :: int where "StatusInternalServerError = 500"
definition StatusServiceUnavailable :: int where "StatusServiceUnavailable = 503"

definition apiErrorMessages :: "RegistryV2ErrorCode \<rightharpoonup> string" where
  "apiErrorMessages = map_of
    [(ErrBlobUnknown, ''blob unknown to registry''),
     (ErrBlobUploadInvalid, ''blob upload invalid''),
     (ErrBlobUploadUnknown, ''blob upload unknown to registry''),
     (ErrDigestInvalid, ''provided digest did not match uploaded content''),
     (ErrManifestBlobUnknown, ''manifest blob unknown to registry''),
     (ErrManifestInvalid, ''manifest invalid''),
     (ErrManifestUnknown, ''manifest unknown''),
     (ErrManifestUnverified, ''manifest failed signature verification''),
     (ErrNameInvalid, ''invalid repository name''),
     (ErrNameUnknown, ''repository name not known to registry''),
     (ErrSizeInvalid, ''provided length did not match content length''),
     (ErrTagInvalid, ''manifest tag did not match URI''),
     (ErrUnauthorized, ''authentication required''),
     (ErrDenied, ''requested access to the resource is denied''),
     (ErrUnsupported, ''operation is unsupported''),
     (ErrUnknown, ''unknown error''),
     (ErrUnavailable, ''registry is currently unavailable''),
     (ErrTooManyRequests, ''too many requests; please slow down'')]"

definition apiErrorStatusCodes :: "RegistryV2ErrorCode \<rightharpoonup> int" where
  "apiErrorStatusCodes = map_of
    [(ErrBlobUnknown, StatusNotFound),
     (ErrBlobUploadInvalid, StatusBadRequest),
     (ErrBlobUploadUnknown, StatusNotFound),
     (ErrDigestInvalid, StatusBadRequest),
     (ErrManifestBlobUnknown, StatusNotFound),
     (ErrManifestInvalid, StatusBadRequest),
     (ErrManifestUnknown, StatusNotFound),
     (ErrManifestUnverified, StatusBadRequest),
     (ErrNameInvalid, StatusBadRequest),
     (ErrNameUnknown, StatusNotFound),
     (ErrSizeInvalid, StatusBadRequest),
     (ErrTagInvalid, StatusBadRequest),
     (ErrUnauthorized, StatusUnauthorized),
     (ErrDenied, StatusUnauthorized),
     (ErrUnsupported, StatusMethodNotAllowed),
     (ErrUnknown, StatusInternalServerError),
     (ErrUnavailable, StatusServiceUnavailable),
     (ErrTooManyRequests, StatusTooManyRequests)]"

text \<open>Indexing a Go map with a key it does not hold gives the zero value of the value type.\<close>

definition message_at :: "(RegistryV2ErrorCode \<rightharpoonup> string) \<Rightarrow> RegistryV2ErrorCode \<Rightarrow> string" where
  "message_at m c = (case m c of None \<Rightarrow> [] | Some s \<Rightarrow> s)"

definition status_at :: "(RegistryV2ErrorCode \<rightharpoonup> int) \<Rightarrow> RegistryV2ErrorCode \<Rightarrow> int" where
  "status_at m c = (case m c of None \<Rightarrow> 0 | Some n \<Rightarrow> n)"

text \<open>
  The field \<open>Detail\<close> has type \<open>any\<close>. \<open>Error()\<close> tells three kinds of non-nil detail
  apart: a string, a value that \<open>json.Marshal\<close> encodes (kept as the encoding), and a value
  on which \<open>json.Marshal\<close> fails (kept as the text of that failure). A nil detail is
  \<open>None\<close>.
\<close>

datatype detail = DetailString string | DetailJSON string | DetailUnencodable string

text \<open>\<open>http.Header\<close> is \<open>map[string][]string\<close>; a nil map is \<open>None\<close>.\<close>

type_synonym Header = "string \<rightharpoonup> string list"

record RegistryV2Error =
  Code :: RegistryV2ErrorCode
  Message :: string
  Detail :: "detail option"
  Status :: int
  Headers :: "Header option"

text \<open>
  The variadic operands of \<open>With\<close> are only ever handed to \<open>fmt.Sprintf\<close>. No operand is
  \<open>NoArgs\<close>; a non-empty operand list is kept as the function that \<open>fmt.Sprintf\<close>
  computes from the format string with these operands.
\<close>

datatype fmt_args = NoArgs | Args "string \<Rightarrow> string"

definition With :: "RegistryV2ErrorCode \<Rightarrow> string \<Rightarrow> fmt_args \<Rightarrow> RegistryV2Error" where
  "With c msg args =
    \<lparr>Code = c,
     Message =
       (if msg = [] then message_at apiErrorMessages c
        else (case args of NoArgs \<Rightarrow> msg | Args sprintf \<Rightarrow> sprintf msg)),
     Detail = None,
     Status = 0,
     Headers = None\<rparr>"

text \<open>\<open>WithDetail\<close>, \<open>WithStatus\<close> and \<open>WithHeader\<close> assign one field of the receiver and
  return the receiver.\<close>

definition WithDetail :: "RegistryV2Error \<Rightarrow> detail option \<Rightarrow> RegistryV2Error" where
  "WithDetail e d = e\<lparr>Detail := d\<rparr>"

definition WithStatus :: "RegistryV2Error \<Rightarrow> int \<Rightarrow> RegistryV2Error" where
  "WithStatus e status = e\<lparr>Status := status\<rparr>"

text \<open>
  \<open>http.CanonicalHeaderKey\<close> of the standard library: a key made of header-field token
  bytes only gets its first letter and every letter after a hyphen in upper case and all
  other letters in lower case; any other key is returned as it is.
\<close>

definition lower_letters :: string where
  "lower_letters = ''abcdefghijklmnopqrstuvwxyz''"

definition upper_letters :: string where
  "upper_letters = ''ABCDEFGHIJKLMNOPQRSTUVWXYZ''"

definition validHeaderFieldByte :: "char \<Rightarrow> bool" where
  "validHeaderFieldByte c =
    (c \<in> set (lower_letters @ upper_letters @ ''0123456789'' @ ''!#$%&*+-.^_`|~'' @ [CHR 0x27]))"

definition to_upper :: "char \<Rightarrow> char" where
  "to_upper c = (case map_of (zip lower_letters upper_letters) c of None \<Rightarrow> c | Some u \<Rightarrow> u)"

definition to_lower :: "char \<Rightarrow> char" where
  "to_lower c = (case map_of (zip upper_letters lower_letters) c of None \<Rightarrow> c | Some l \<Rightarrow> l)"

fun canonical_bytes :: "bool \<Rightarrow> string \<Rightarrow> string" where
  "canonical_bytes upper [] = []"
| "canonical_bytes upper (c # cs) =
    (let c' = (if upper then to_upper c else to_lower c)
     in c' # canonical_bytes (c' = CHR ''-'') cs)"

definition CanonicalHeaderKey :: "string \<Rightarrow> string" where
  "CanonicalHeaderKey s = (if list_all validHeaderFieldByte s then canonical_bytes True s else s)"

definition WithHeader :: "RegistryV2Error \<Rightarrow> string \<Rightarrow> string list \<Rightarrow> RegistryV2Error" where
  "WithHeader e key values =
    (let h = (case Headers e of None \<Rightarrow> Map.empty | Some h \<Rightarrow> h)
     in e\<lparr>Headers := Some (h(CanonicalHeaderKey key \<mapsto> values))\<rparr>)"

text \<open>\<open>Error()\<close>: the message, followed by the detail when there is one.\<close>

definition RegistryV2Error_Error :: "RegistryV2Error \<Rightarrow> string" where
  "RegistryV2Error_Error e =
    (case Detail e of
       None \<Rightarrow> Message e
     | Some d \<Rightarrow>
         Message e @ '': '' @
           (case d of
              DetailString detailStr \<Rightarrow> detailStr
            | DetailJSON detailBytes \<Rightarrow> detailBytes
            | DetailUnencodable errText \<Rightarrow> errText))"

text \<open>
  Go's \<open>error\<close> values, as far as the embedded files meet them: an envelope, the
  sentinel \<open>sql.ErrNoRows\<close>, an error that only has a text, and an error with a text of
  its own that wraps another one (\<open>Unwrap\<close> gives the inner error). An \<open>error option\<close> is
  an \<open>error\<close> interface value, \<open>None\<close> being nil.
\<close>

datatype error =
    EnvelopeError RegistryV2Error
  | ErrNoRows
  | ErrorString string
  | Wrapped string error

fun error_text :: "error \<Rightarrow> string" where
  "error_text (EnvelopeError e) = RegistryV2Error_Error e"
| "error_text ErrNoRows = ''sql: no rows in result set''"
| "error_text (ErrorString s) = s"
| "error_text (Wrapped s inner) = s"

text \<open>\<open>errext.As[*RegistryV2Error]\<close> is \<open>errors.As\<close>: the first envelope on the chain of
  \<open>Unwrap\<close>, if there is one.\<close>

fun errext_As :: "error \<Rightarrow> RegistryV2Error option" where
  "errext_As (EnvelopeError e) = Some e"
| "errext_As (Wrapped s inner) = errext_As inner"
| "errext_As ErrNoRows = None"
| "errext_As (ErrorString s) = None"

text \<open>On a nil \<open>err\<close> the cast fails and \<open>err.Error()\<close> panics.\<close>

definition AsRegistryV2Error :: "error option \<Rightarrow> RegistryV2Error outcome" where
  "AsRegistryV2Error err =
    (case err of
       None \<Rightarrow> Panic
     | Some x \<Rightarrow>
         (case errext_As x of
            Some rerr \<Rightarrow> Return rerr
          | None \<Rightarrow> Return (With ErrUnknown (error_text x) NoArgs)))"

section \<open>Writing an envelope as a response\<close>

text \<open>
  \<open>http.ResponseWriter\<close> is an interface. The model keeps the header map that
  \<open>w.Header()\<close> returns and the sequence of \<open>WriteHeader\<close> and \<open>Write\<close> calls made on
  the writer. What is written is kept by its content: the JSON document with the
  \<open>errors\<close> array and a final newline, the JSON document with the \<open>details\<close> text, or
  plain text.
\<close>

datatype payload =
    ErrorsJSON "RegistryV2Error list"
  | DetailsJSON string
  | PlainText string

datatype writer_call = WriteHeader int | Write payload

record ResponseWriter =
  header :: Header
  calls :: "writer_call list"

text \<open>Of the request, the methods read \<open>Method\<close>, the context and the requester's IP
  address (what \<open>httpext.GetRequesterIPFor\<close> finds for it).\<close>

record 'ctx Request =
  Method :: string
  Context :: 'ctx
  RequesterIP :: string

definition Header_Set :: "Header \<Rightarrow> string \<Rightarrow> string \<Rightarrow> Header" where
  "Header_Set h key v = h(CanonicalHeaderKey key \<mapsto> [v])"

text \<open>\<open>for k, v := range e.Headers { w.Header()[k] = v }\<close>; ranging over a nil map does
  nothing.\<close>

definition copy_headers :: "Header option \<Rightarrow> Header \<Rightarrow> Header" where
  "copy_headers hs h = (case hs of None \<Rightarrow> h | Some eh \<Rightarrow> h ++ eh)"

text \<open>
  The three writing methods have a pointer receiver. Each model returns the envelope as
  it is after the call, together with the writer.
\<close>

definition WriteAsRegistryV2ResponseTo ::
  "RegistryV2Error \<Rightarrow> ResponseWriter \<Rightarrow> 'ctx Request \<Rightarrow> RegistryV2Error \<times> ResponseWriter" where
  "WriteAsRegistryV2ResponseTo e w r =
    (let w1 = w\<lparr>header := Header_Set (header w) ''Content-Type'' ''application/json''\<rparr>;
         w2 = w1\<lparr>header := copy_headers (Headers e) (header w1)\<rparr>;
         w3 = (if Status e = 0
               then w2\<lparr>calls := calls w2 @ [WriteHeader (status_at apiErrorStatusCodes (Code e))]\<rparr>
               else w2\<lparr>calls := calls w2 @ [WriteHeader (Status e)]\<rparr>);
         w4 = (if Method r \<noteq> ''HEAD''
               then w3\<lparr>calls := calls w3 @ [Write (ErrorsJSON [e])]\<rparr>
               else w3)
     in (e, w4))"

text \<open>\<open>respondwith.JSON\<close> (go-bits) sets the content type, writes the status and writes
  the JSON encoding of its argument.\<close>

definition respondwith_JSON :: "ResponseWriter \<Rightarrow> int \<Rightarrow> payload \<Rightarrow> ResponseWriter" where
  "respondwith_JSON w code data =
    w\<lparr>header := Header_Set (header w) ''Content-Type'' ''application/json'',
      calls := calls w @ [WriteHeader code, Write data]\<rparr>"

definition WriteAsAuthResponseTo ::
  "RegistryV2Error \<Rightarrow> ResponseWriter \<Rightarrow> RegistryV2Error \<times> ResponseWriter" where
  "WriteAsAuthResponseTo e w =
    (let w1 = w\<lparr>header := copy_headers (Headers e) (header w)\<rparr>;
         status = Status e;
         status' = (if status = 0 then status_at apiErrorStatusCodes (Code e) else status)
     in (e, respondwith_JSON w1 status' (DetailsJSON (RegistryV2Error_Error e))))"

definition WriteAsTextTo ::
  "RegistryV2Error \<Rightarrow> ResponseWriter \<Rightarrow> RegistryV2Error \<times> ResponseWriter" where
  "WriteAsTextTo e w =
    (let w1 = w\<lparr>header := copy_headers (Headers e) (header w)\<rparr>;
         w2 = (if Status e = 0
               then w1\<lparr>calls := calls w1 @ [WriteHeader (status_at apiErrorStatusCodes (Code e))]\<rparr>
               else w1\<lparr>calls := calls w1 @ [WriteHeader (Status e)]\<rparr>)
     in (e, w2\<lparr>calls := calls w2 @ [Write (PlainText (RegistryV2Error_Error e @ [CHR 0x0A]))]\<rparr>))"

section \<open>The rate-limit check (package api, CheckRateLimit)\<close>

text \<open>
  Modelled from the spec: the declaration of \<open>keppel.UserType\<close> is not among the source
  files. The spec names the classifications of a caller: an ordinary tenant user, a
  cluster-internal peer service and an automated scanning service; the source names the
  last two \<open>PeerUser\<close> and \<open>TrivyUser\<close>.
\<close>

datatype UserType = RegularUser | PeerUser | TrivyUser

text \<open>
  The identity is an interface value with a method \<open>UserType()\<close>, held in a field of the
  \<open>Authorization\<close> that the caller passes by pointer. Both may be nil.
\<close>

record UserIdentity =
  UserType :: UserType

record Authorization =
  UserIdentity :: "UserIdentity option"

text \<open>
  Modelled from the spec: the declaration of the result of the driver is not among the
  source files. The spec gives it as \<open>{RetryAfter: duration}\<close>.
\<close>

record RateLimitResult =
  RetryAfter :: Duration

text \<open>
  The method \<open>RateLimitAllows\<close> of \<open>keppel.RateLimitEngine\<close> is not among the source
  files: it is the one field of the engine, a function of the arguments that
  \<open>CheckRateLimit\<close> passes and of the state \<open>'s\<close> of the driver's store, which it may
  change. It returns \<open>(allowed, result, err)\<close>.
\<close>

record ('ctx, 'acct, 'act, 's) RateLimitEngine =
  RateLimitAllows ::
    "'ctx \<Rightarrow> string \<Rightarrow> 'acct \<Rightarrow> 'act \<Rightarrow> 64 word \<Rightarrow> 's
      \<Rightarrow> (bool \<times> RateLimitResult \<times> error option) \<times> 's"

text \<open>
  Modelled from the spec: \<open>keppel.AtLeastZero\<close> is not among the source files. The spec
  computes the header from \<open>max(0, ...)\<close> and never emits a negative value: the helper
  gives 0 for a negative \<open>int64\<close> and the argument itself, as a \<open>uint64\<close>, otherwise.
\<close>

definition AtLeastZero :: "64 word \<Rightarrow> 64 word" where
  "AtLeastZero x = (if sint x < 0 then 0 else x)"

text \<open>\<open>strconv.FormatUint(u, 10)\<close> of the standard library: the decimal digits of \<open>u\<close>,
  most significant first.\<close>

function format_decimal :: "nat \<Rightarrow> string" where
  "format_decimal n =
    (if n < 10 then [''0123456789'' ! n]
     else format_decimal (n div 10) @ [''0123456789'' ! (n mod 10)])"
  by pat_completeness auto
termination
  by (relation "measure id") auto

definition FormatUint10 :: "64 word \<Rightarrow> string" where
  "FormatUint10 u = format_decimal (unat u)"

definition CheckRateLimit ::
  "'ctx Request option \<Rightarrow> ('ctx, 'acct, 'act, 's) RateLimitEngine option \<Rightarrow> 'acct
    \<Rightarrow> Authorization option \<Rightarrow> 'act \<Rightarrow> 64 word \<Rightarrow> 's \<Rightarrow> error option outcome \<times> 's" where
  "CheckRateLimit r rle account authz action amount s =
    (case rle of
       None \<Rightarrow> (Return None, s)
     | Some engine \<Rightarrow>
         (case authz of
            None \<Rightarrow> (Panic, s)
          | Some a \<Rightarrow>
              (case UserIdentity a of
                 None \<Rightarrow> (Panic, s)
               | Some identity \<Rightarrow>
                   (let userType = UserType identity
                    in if userType = PeerUser \<or> userType = TrivyUser then (Return None, s)
                       else
                         (case r of
                            None \<Rightarrow> (Panic, s)
                          | Some req \<Rightarrow>
                              (case RateLimitAllows engine (Context req) (RequesterIP req)
                                      account action amount s of
                                 ((allowed, result, err), s') \<Rightarrow>
                                   if err \<noteq> None then (Return err, s')
                                   else if \<not> allowed then
                                     (let retryAfterStr =
                                        FormatUint10
                                          (AtLeastZero (duration_div (RetryAfter result) Second))
                                      in (Return (Some (EnvelopeError
                                            (WithHeader (With ErrTooManyRequests [] NoArgs)
                                               ''Retry-After'' [retryAfterStr]))), s'))
                                   else (Return None, s')))))))"

section \<open>The inbound cache driver for unit tests (package test)\<close>

text \<open>A \<open>[]byte\<close> is a list of bytes; the nil slice is the empty list.\<close>

record inboundCacheEntry =
  Contents :: "8 word list"
  MediaType :: string
  InsertedAt :: Time

text \<open>
  The key type \<open>models.ImageReference\<close> is not among the source files and only used as
  a map key: it is the type parameter \<open>'ref\<close>. A nil \<open>Entries\<close> map, as the driver has
  before \<open>Init\<close>, is \<open>None\<close>. The context and configuration arguments are not read by
  this driver and left out.
\<close>

record 'ref InboundCacheDriver =
  MaxAge :: Duration
  Entries :: "('ref \<rightharpoonup> inboundCacheEntry) option"

definition Init :: "'ref InboundCacheDriver \<Rightarrow> error option \<times> 'ref InboundCacheDriver" where
  "Init d = (None, d\<lparr>MaxAge := 6 * Hour, Entries := Some Map.empty\<rparr>)"

text \<open>Reading a nil map finds nothing.\<close>

definition entry_at :: "('ref \<rightharpoonup> inboundCacheEntry) option \<Rightarrow> 'ref \<Rightarrow> inboundCacheEntry option" where
  "entry_at es location = (case es of None \<Rightarrow> None | Some m \<Rightarrow> m location)"

definition LoadManifest ::
  "'ref InboundCacheDriver \<Rightarrow> 'ref \<Rightarrow> Time \<Rightarrow> 8 word list \<times> string \<times> error option" where
  "LoadManifest d location now =
    (let maxInsertedAt = Time_Add now (- MaxAge d)
     in case entry_at (Entries d) location of
          Some entry \<Rightarrow>
            if Time_After (InsertedAt entry) maxInsertedAt
            then (Contents entry, MediaType entry, None)
            else ([], [], Some ErrNoRows)
        | None \<Rightarrow> ([], [], Some ErrNoRows))"

text \<open>Assigning to an entry of a nil map panics.\<close>

definition StoreManifest ::
  "'ref InboundCacheDriver \<Rightarrow> 'ref \<Rightarrow> 8 word list \<Rightarrow> string \<Rightarrow> Time
    \<Rightarrow> (error option \<times> 'ref InboundCacheDriver) outcome" where
  "StoreManifest d location contents mediaType now =
    (case Entries d of
       None \<Rightarrow> Panic
     | Some m \<Rightarrow>
         Return (None,
           d\<lparr>Entries := Some (m(location \<mapsto>
               \<lparr>Contents = contents, MediaType = mediaType, InsertedAt = now\<rparr>))\<rparr>))"

text \<open>A store followed by a load of the same key on the driver that the store leaves, as a
  caller sequences them.\<close>

definition store_then_load ::
  "'ref InboundCacheDriver \<Rightarrow> 'ref \<Rightarrow> 8 word list \<Rightarrow> string \<Rightarrow> Time \<Rightarrow> Time
    \<Rightarrow> (error option \<times> 8 word list \<times> string \<times> error option) outcome" where
  "store_then_load d location contents mediaType t0 now =
    (case StoreManifest d location contents mediaType t0 of
       Panic \<Rightarrow> Panic
     | Return (err, d') \<Rightarrow> Return (err, LoadManifest d' location now))"

section \<open>Reading a decimal string\<close>

text \<open>
  What the properties below mean by the decimal string of a number: a non-empty string
  of the digits 0 to 9 whose value, read from the most significant digit, is the number.
\<close>

definition digit_value :: "char \<Rightarrow> nat" where
  "digit_value c = length (takeWhile (\<lambda>d. d \<noteq> c) ''0123456789'')"

definition decimal_value :: "string \<Rightarrow> nat" where
  "decimal_value s = foldl (\<lambda>acc c. 10 * acc + digit_value c) 0 s"

definition is_decimal :: "string \<Rightarrow> bool" where
  "is_decimal s = (s \<noteq> [] \<and> list_all (\<lambda>c. c \<in> set ''0123456789'') s)"

section \<open>Example values\<close>

text \<open>The driver that the factory registered in \<open>init()\<close> makes: \<open>&InboundCacheDriver{}\<close>.\<close>

definition new_driver :: "'ref InboundCacheDriver" where
  "new_driver = \<lparr>MaxAge = 0, Entries = None\<rparr>"

definition example_entry :: inboundCacheEntry where
  "example_entry = \<lparr>Contents = [1, 2, 3], MediaType = ''application/vnd.x'', InsertedAt = 1000\<rparr>"

definition example_driver :: "Duration \<Rightarrow> nat InboundCacheDriver" where
  "example_driver maxAge = \<lparr>MaxAge = maxAge, Entries = Some (Map.empty(7 \<mapsto> example_entry))\<rparr>"

definition example_request :: "unit Request" where
  "example_request = \<lparr>Method = ''GET'', Context = (), RequesterIP = ''192.0.2.1''\<rparr>"

definition authorization_of :: "UserType \<Rightarrow> Authorization option" where
  "authorization_of userType = Some \<lparr>UserIdentity = Some \<lparr>UserType = userType\<rparr>\<rparr>"

text \<open>An engine whose driver gives the same answer to every call and counts the calls.\<close>

definition answering_engine ::
  "bool \<Rightarrow> Duration \<Rightarrow> error option \<Rightarrow> (unit, string, string, nat) RateLimitEngine" where
  "answering_engine allowed retryAfter err =
    \<lparr>RateLimitAllows = (\<lambda>ctx ip account action amount s.
        ((allowed, \<lparr>RetryAfter = retryAfter\<rparr>, err), Suc s))\<rparr>"

definition new_writer :: ResponseWriter where
  "new_writer = \<lparr>header = Map.empty, calls = []\<rparr>"

definition example_envelope :: RegistryV2Error where
  "example_envelope =
    \<lparr>Code = ErrNameUnknown, Message = ''no such repository'',
     Detail = Some (DetailString ''library/alpine''),
     Status = 0, Headers = Some (Map.empty(''Retry-After'' \<mapsto> [''5'']))\<rparr>"

section \<open>Unfolding the constants\<close>

lemmas code_defs =
  ErrBlobUnknown_def ErrBlobUploadInvalid_def ErrBlobUploadUnknown_def ErrDigestInvalid_def
  ErrManifestBlobUnknown_def ErrManifestInvalid_def ErrManifestUnknown_def
  ErrManifestUnverified_def ErrNameInvalid_def ErrNameUnknown_def ErrSizeInvalid_def
  ErrTagInvalid_def ErrUnauthorized_def ErrDenied_def ErrUnsupported_def ErrUnknown_def
  ErrUnavailable_def ErrTooManyRequests_def

lemmas status_defs =
  StatusBadRequest_def StatusUnauthorized_def StatusForbidden_def StatusNotFound_def
  StatusMethodNotAllowed_def StatusTooManyRequests_def StatusInternalServerError_def
  StatusServiceUnavailable_def

section \<open>Arithmetic of durations\<close>

declare format_decimal.simps [simp del]

lemma sint_neg_duration:
  fixes x :: Duration
  assumes "sint x \<noteq> - (2 ^ 63)"
  shows "sint (- x) = - sint x"
proof -
  have lo: "- (2 ^ 63) \<le> sint x" using sint_ge [of x] by simp
  have hi: "sint x < 2 ^ 63" using sint_lt [of x] by simp
  have "signed_take_bit 63 (- sint x) = - sint x"
    using lo hi assms by (simp add: signed_take_bit_int_eq_self_iff)
  then show ?thesis by (simp add: sint_word_minus)
qed

lemma sint_word_of_int_small:
  assumes "- (2 ^ 63) \<le> q" and "q < 2 ^ 63"
  shows "sint (word_of_int q :: 64 word) = q"
  using assms by (simp add: sint_sbintrunc' signed_take_bit_int_eq_self_iff)

lemma unat_word_of_int_small:
  assumes "0 \<le> q" and "q < 2 ^ 63"
  shows "unat (word_of_int q :: 64 word) = nat q"
proof -
  have "take_bit 64 q = q" using assms by (simp add: take_bit_int_eq_self)
  then show ?thesis by (simp add: unsigned_of_int)
qed

text \<open>Go's quotient by one second, against the floor quotient of HOL.\<close>

lemma sdiv_second_nonneg:
  assumes "0 \<le> (k::int)"
  shows "k sdiv 1000000000 = k div 1000000000"
  using assms by (cases "k = 0") (simp_all add: signed_divide_int_def)

lemma sdiv_second_neg:
  assumes "(k::int) < 0"
  shows "k sdiv 1000000000 = - ((- k) div 1000000000)"
  using assms by (simp add: signed_divide_int_def)

lemma div_second_le:
  assumes "0 \<le> (k::int)"
  shows "k div 1000000000 \<le> k"
proof -
  have "k div 1000000000 \<le> k div 1" using assms by (intro zdiv_mono2) simp_all
  then show ?thesis by simp
qed

lemma seconds_of_duration:
  fixes ra :: Duration
  shows "unat (AtLeastZero (duration_div ra Second)) = nat (max 0 (sint ra div 1000000000))"
proof (cases "0 \<le> sint ra")
  case True
  define q where "q = sint ra div 1000000000"
  have hi: "sint ra < 2 ^ 63" using sint_lt [of ra] by simp
  have q0: "0 \<le> q" using True by (simp add: q_def)
  have "q \<le> sint ra" using div_second_le [OF True] by (simp add: q_def)
  then have q1: "q < 2 ^ 63" using hi by linarith
  have d: "duration_div ra Second = word_of_int q"
    using True by (simp add: duration_div_def Second_def sdiv_second_nonneg q_def)
  have "sint (word_of_int q :: 64 word) = q"
    using q0 q1 by (intro sint_word_of_int_small) simp_all
  then have "AtLeastZero (word_of_int q) = (word_of_int q :: 64 word)"
    using q0 by (simp add: AtLeastZero_def)
  then show ?thesis
    using d q0 q1 unat_word_of_int_small [of q] by (simp add: q_def)
next
  case False
  then have neg: "sint ra < 0" by simp
  define p where "p = (- sint ra) div 1000000000"
  have lo: "- (2 ^ 63) \<le> sint ra" using sint_ge [of ra] by simp
  have p0: "0 \<le> p" using neg by (simp add: p_def)
  have "p \<le> - sint ra" using div_second_le [of "- sint ra"] neg by (simp add: p_def)
  then have p1: "p \<le> 2 ^ 63" using lo by linarith
  have d: "duration_div ra Second = word_of_int (- p)"
    using neg by (simp add: duration_div_def Second_def sdiv_second_neg p_def)
  have s: "sint (word_of_int (- p) :: 64 word) = - p"
    using p0 p1 by (intro sint_word_of_int_small) simp_all
  have "AtLeastZero (word_of_int (- p)) = (0 :: 64 word)"
  proof (cases "p = 0")
    case True
    then show ?thesis by (simp add: AtLeastZero_def)
  next
    case False
    then have "sint (word_of_int (- p) :: 64 word) < 0" using s p0 by simp
    then show ?thesis by (simp add: AtLeastZero_def)
  qed
  moreover have "sint ra div 1000000000 < 0" using neg by (simp add: div_neg_pos_less0)
  ultimately show ?thesis using d by simp
qed

section \<open>The digits of \<open>format_decimal\<close>\<close>

lemma below_ten:
  assumes "k < (10::nat)"
  shows "k \<in> {0, 1, 2, 3, 4, 5, 6, 7, 8, 9}"
  using assms by auto

lemma digit_value_nth:
  assumes "k < 10"
  shows "digit_value (''0123456789'' ! k) = k"
  using below_ten [OF assms] by (auto simp: digit_value_def)

lemma digit_nth_member:
  assumes "k < 10"
  shows "''0123456789'' ! k \<in> set ''0123456789''"
  using below_ten [OF assms] by auto

lemma decimal_value_snoc:
  "decimal_value (s @ [c]) = 10 * decimal_value s + digit_value c"
  by (simp add: decimal_value_def)

lemma decimal_value_format: "decimal_value (format_decimal n) = n"
proof (induction n rule: format_decimal.induct)
  case (1 n)
  show ?case
  proof (cases "n < 10")
    case True
    then show ?thesis
      by (subst format_decimal.simps) (simp add: decimal_value_def digit_value_nth)
  next
    case False
    have "decimal_value (format_decimal n) =
        10 * decimal_value (format_decimal (n div 10)) + digit_value (''0123456789'' ! (n mod 10))"
      using False by (subst format_decimal.simps) (simp add: decimal_value_snoc)
    also have "\<dots> = 10 * (n div 10) + n mod 10"
      using "1.IH" [OF False] by (simp add: digit_value_nth)
    finally show ?thesis by simp
  qed
qed

lemma is_decimal_format: "is_decimal (format_decimal n)"
proof (induction n rule: format_decimal.induct)
  case (1 n)
  show ?case
  proof (cases "n < 10")
    case True
    then show ?thesis
      using digit_nth_member [of n]
      by (subst format_decimal.simps) (simp add: is_decimal_def)
  next
    case False
    then show ?thesis
      using "1.IH" [OF False] digit_nth_member [of "n mod 10"]
      by (subst format_decimal.simps) (simp add: is_decimal_def)
  qed
qed

lemma canonical_Retry_After: "CanonicalHeaderKey ''Retry-After'' = ''Retry-After''"
  by (simp add: CanonicalHeaderKey_def validHeaderFieldByte_def lower_letters_def
      upper_letters_def to_upper_def to_lower_def Let_def)

lemma status_TooManyRequests: "apiErrorStatusCodes ErrTooManyRequests = Some 429"
  by (simp add: apiErrorStatusCodes_def code_defs status_defs)

lemma format_decimal_0: "format_decimal 0 = ''0''"
  by (subst format_decimal.simps) simp

lemma format_decimal_1: "format_decimal (Suc 0) = ''1''"
  by (subst format_decimal.simps) simp

lemma LoadManifest_hit_iff:
  assumes "sint (MaxAge d) \<noteq> - (2 ^ 63)"
  shows "Time_After t (Time_Add now (- MaxAge d)) \<longleftrightarrow> now - t < sint (MaxAge d)"
  using sint_neg_duration [OF assms] by (auto simp: Time_After_def Time_Add_def)

lemma sint_six_hours: "sint (6 * Hour) = 21600000000000"
  by (simp add: Hour_def)

section \<open>The tables and the calls of the writing methods\<close>

lemma tables_on_codes:
  assumes "c \<in> set error_codes"
  shows "\<exists>m st. apiErrorMessages c = Some m \<and> m \<noteq> [] \<and>
           apiErrorStatusCodes c = Some st \<and> 400 \<le> st \<and> st < 600 \<and>
           (c = ErrManifestUnknown \<longrightarrow> m = ''manifest unknown'' \<and> st = 404) \<and>
           (c = ErrDenied \<longrightarrow> st = 401)"
proof -
  have "c \<in> {ErrBlobUnknown, ErrBlobUploadInvalid, ErrBlobUploadUnknown, ErrDigestInvalid,
     ErrManifestBlobUnknown, ErrManifestInvalid, ErrManifestUnknown, ErrManifestUnverified,
     ErrNameInvalid, ErrNameUnknown, ErrSizeInvalid, ErrTagInvalid, ErrUnauthorized,
     ErrDenied, ErrUnsupported, ErrUnknown, ErrUnavailable, ErrTooManyRequests}"
    using assms by (simp add: error_codes_def)
  then show ?thesis
    unfolding insert_iff empty_iff
    by (elim disjE FalseE)
      (simp_all add: apiErrorMessages_def apiErrorStatusCodes_def code_defs status_defs)
qed

lemma write_calls:
  "calls (snd (WriteAsRegistryV2ResponseTo e w r)) =
     calls w @ WriteHeader (if Status e = 0 then status_at apiErrorStatusCodes (Code e) else Status e)
       # (if Method r \<noteq> ''HEAD'' then [Write (ErrorsJSON [e])] else [])"
  "calls (snd (WriteAsAuthResponseTo e w)) =
     calls w @ [WriteHeader (if Status e = 0 then status_at apiErrorStatusCodes (Code e) else Status e),
                Write (DetailsJSON (RegistryV2Error_Error e))]"
  "calls (snd (WriteAsTextTo e w)) =
     calls w @ [WriteHeader (if Status e = 0 then status_at apiErrorStatusCodes (Code e) else Status e),
                Write (PlainText (RegistryV2Error_Error e @ [CHR 0x0A]))]"
  by (simp_all add: WriteAsRegistryV2ResponseTo_def WriteAsAuthResponseTo_def WriteAsTextTo_def
      respondwith_JSON_def Let_def)

lemma status_Unknown: "apiErrorStatusCodes ErrUnknown = Some 500"
  by (simp add: apiErrorStatusCodes_def code_defs status_defs)

lemma message_Unknown: "message_at apiErrorMessages ErrUnknown = ''unknown error''"
  by (simp add: message_at_def apiErrorMessages_def code_defs)

section \<open>The rate-limit check\<close>

text \<open>
  Claim C4. When no rate-limit engine is configured (\<open>rle\<close> is nil), \<open>CheckRateLimit\<close>
  returns nil for every request, account, authorization (a nil one too), action and
  amount, and the state of any driver is as before.
\<close>

theorem CheckRateLimit_disabled:
  "CheckRateLimit r None account authz action amount s = (Return None, s)"
  by (simp add: CheckRateLimit_def)

theorem CheckRateLimit_disabled_witness:
  "CheckRateLimit (None :: unit Request option)
       (None :: (unit, string, string, nat) RateLimitEngine option) ''account'' None ''pull'' 1 0 =
     (Return None, 0)"
  using CheckRateLimit_disabled [of None "''account''" None "''pull''" 1 "0::nat"] by simp

text \<open>
  Claim C3. For a caller whose identity has the user type of a cluster-internal peer or
  of the trusted scanner, \<open>CheckRateLimit\<close> returns nil for every account, action and
  amount, for every engine (configured or not) and every state of its driver, and that
  state is as before: the driver is not consulted, whatever it would have answered.
\<close>

theorem CheckRateLimit_exempt:
  assumes "authz = Some a" and "UserIdentity a = Some identity"
    and "UserType identity = PeerUser \<or> UserType identity = TrivyUser"
  shows "CheckRateLimit r rle account authz action amount s = (Return None, s)"
  using assms by (cases rle) (auto simp: CheckRateLimit_def)

theorem CheckRateLimit_exempt_witness:
  "authorization_of PeerUser = Some \<lparr>UserIdentity = Some \<lparr>UserType = PeerUser\<rparr>\<rparr> \<and>
   (UserType \<lparr>UserType = PeerUser\<rparr> = PeerUser \<or> UserType \<lparr>UserType = PeerUser\<rparr> = TrivyUser) \<and>
   CheckRateLimit (Some example_request)
       (Some (answering_engine False (90 * Second) None)) ''account''
       (authorization_of PeerUser) ''pull'' 1 0 = (Return None, 0)"
proof -
  let ?identity = "\<lparr>UserType = PeerUser\<rparr>"
  let ?a = "\<lparr>UserIdentity = Some ?identity\<rparr>"
  have h1: "authorization_of PeerUser = Some ?a"
    by (simp add: authorization_of_def)
  have h2: "UserIdentity ?a = Some ?identity" by simp
  have h3: "UserType ?identity = PeerUser \<or> UserType ?identity = TrivyUser" by simp
  show ?thesis
    using h1 h3 CheckRateLimit_exempt [OF h1 h2 h3] by simp
qed

text \<open>
  Claim C5. When the engine is configured, the caller is not exempt and the driver's
  \<open>RateLimitAllows\<close> returns a non-nil error, \<open>CheckRateLimit\<close> returns exactly that
  error, whatever the \<open>allowed\<close> flag and the result say: it is neither wrapped in an
  envelope, nor turned into a denial, nor dropped.
\<close>

theorem CheckRateLimit_driver_error:
  assumes "authz = Some a" and "UserIdentity a = Some identity"
    and "UserType identity \<noteq> PeerUser" and "UserType identity \<noteq> TrivyUser"
    and "RateLimitAllows engine (Context req) (RequesterIP req) account action amount s =
           ((allowed, result, Some err), s')"
  shows "CheckRateLimit (Some req) (Some engine) account authz action amount s =
           (Return (Some err), s')"
  using assms by (simp add: CheckRateLimit_def)

theorem CheckRateLimit_driver_error_witness:
  "authorization_of RegularUser = Some \<lparr>UserIdentity = Some \<lparr>UserType = RegularUser\<rparr>\<rparr> \<and>
   UserType \<lparr>UserType = RegularUser\<rparr> \<noteq> PeerUser \<and>
   UserType \<lparr>UserType = RegularUser\<rparr> \<noteq> TrivyUser \<and>
   RateLimitAllows (answering_engine True 0 (Some (ErrorString ''connection refused'')))
       (Context example_request) (RequesterIP example_request) ''account'' ''pull'' 1 0 =
     ((True, \<lparr>RetryAfter = 0\<rparr>, Some (ErrorString ''connection refused'')), Suc 0) \<and>
   CheckRateLimit (Some example_request)
       (Some (answering_engine True 0 (Some (ErrorString ''connection refused'')))) ''account''
       (authorization_of RegularUser) ''pull'' 1 0 =
     (Return (Some (ErrorString ''connection refused'')), Suc 0)"
proof -
  let ?identity = "\<lparr>UserType = RegularUser\<rparr>"
  let ?a = "\<lparr>UserIdentity = Some ?identity\<rparr>"
  have h1: "authorization_of RegularUser = Some ?a"
    by (simp add: authorization_of_def)
  have h2: "UserIdentity ?a = Some ?identity" by simp
  have h3: "UserType ?identity \<noteq> PeerUser" by simp
  have h4: "UserType ?identity \<noteq> TrivyUser" by simp
  have h5: "RateLimitAllows (answering_engine True 0 (Some (ErrorString ''connection refused'')))
       (Context example_request) (RequesterIP example_request) ''account'' ''pull'' 1 0 =
     ((True, \<lparr>RetryAfter = 0\<rparr>, Some (ErrorString ''connection refused'')), Suc 0)"
    by (simp add: answering_engine_def)
  show ?thesis
    using h1 h3 h4 h5 CheckRateLimit_driver_error [OF h1 h2 h3 h4 h5] by simp
qed

text \<open>
  Claim C1. When the engine is configured, the caller is not exempt and the driver
  answers \<open>allowed = false\<close> with no error, \<open>CheckRateLimit\<close> returns an envelope with
  code \<open>TOOMANYREQUESTS\<close> and no status of its own, for which the status table gives
  429, and with the one header \<open>Retry-After\<close>, whose value is the decimal string of
  \<open>max 0 (RetryAfter div 1 second)\<close> with the floor quotient \<open>div\<close>: a non-empty string of
  digits, hence never negative. For 450 ms the value is \<open>0\<close>, for 1.999 s it is \<open>1\<close>.
\<close>

theorem CheckRateLimit_denied:
  assumes "authz = Some a" and "UserIdentity a = Some identity"
    and "UserType identity \<noteq> PeerUser" and "UserType identity \<noteq> TrivyUser"
    and "RateLimitAllows engine (Context req) (RequesterIP req) account action amount s =
           ((False, result, None), s')"
  shows "\<exists>e v. CheckRateLimit (Some req) (Some engine) account authz action amount s =
             (Return (Some (EnvelopeError e)), s') \<and>
           Code e = ''TOOMANYREQUESTS'' \<and> Status e = 0 \<and>
           apiErrorStatusCodes (Code e) = Some 429 \<and>
           Headers e = Some (Map.empty(''Retry-After'' \<mapsto> [v])) \<and>
           v = format_decimal (nat (max 0 (sint (RetryAfter result) div 1000000000))) \<and>
           is_decimal v \<and>
           int (decimal_value v) = max 0 (sint (RetryAfter result) div 1000000000) \<and>
           (RetryAfter result = 450 * Millisecond \<longrightarrow> v = ''0'') \<and>
           (RetryAfter result = 1999 * Millisecond \<longrightarrow> v = ''1'')"
proof -
  define n where "n = nat (max 0 (sint (RetryAfter result) div 1000000000))"
  define v where "v = format_decimal n"
  define e where "e = WithHeader (With ErrTooManyRequests [] NoArgs) ''Retry-After'' [v]"
  have str: "FormatUint10 (AtLeastZero (duration_div (RetryAfter result) Second)) = v"
    by (simp add: FormatUint10_def seconds_of_duration v_def n_def)
  have run: "CheckRateLimit (Some req) (Some engine) account authz action amount s =
      (Return (Some (EnvelopeError e)), s')"
    using assms str by (simp add: CheckRateLimit_def e_def)
  have code: "Code e = ''TOOMANYREQUESTS''"
    by (simp add: e_def WithHeader_def With_def ErrTooManyRequests_def)
  have st: "Status e = 0"
    by (simp add: e_def WithHeader_def With_def)
  have tab: "apiErrorStatusCodes (Code e) = Some 429"
    using status_TooManyRequests by (simp add: code ErrTooManyRequests_def)
  have hd: "Headers e = Some (Map.empty(''Retry-After'' \<mapsto> [v]))"
    by (simp add: e_def WithHeader_def With_def canonical_Retry_After)
  have dec: "is_decimal v" by (simp add: v_def is_decimal_format)
  have val: "int (decimal_value v) = max 0 (sint (RetryAfter result) div 1000000000)"
    by (simp add: v_def decimal_value_format n_def)
  have a: "RetryAfter result = 450 * Millisecond \<longrightarrow> v = ''0''"
    by (simp add: v_def n_def Millisecond_def format_decimal_0)
  have b: "RetryAfter result = 1999 * Millisecond \<longrightarrow> v = ''1''"
    by (simp add: v_def n_def Millisecond_def format_decimal_1)
  show ?thesis
    using run code st tab hd dec val a b v_def n_def by blast
qed

theorem CheckRateLimit_denied_witness:
  "authorization_of RegularUser = Some \<lparr>UserIdentity = Some \<lparr>UserType = RegularUser\<rparr>\<rparr> \<and>
   UserType \<lparr>UserType = RegularUser\<rparr> \<noteq> PeerUser \<and>
   UserType \<lparr>UserType = RegularUser\<rparr> \<noteq> TrivyUser \<and>
   RateLimitAllows (answering_engine False (450 * Millisecond) None)
       (Context example_request) (RequesterIP example_request) ''account'' ''pull'' 1 0 =
     ((False, \<lparr>RetryAfter = 450 * Millisecond\<rparr>, None), Suc 0) \<and>
   (\<exists>e. CheckRateLimit (Some example_request)
           (Some (answering_engine False (450 * Millisecond) None)) ''account''
           (authorization_of RegularUser) ''pull'' 1 0 =
         (Return (Some (EnvelopeError e)), Suc 0) \<and>
        Code e = ''TOOMANYREQUESTS'' \<and>
        Headers e = Some (Map.empty(''Retry-After'' \<mapsto> [''0''])))"
proof -
  let ?identity = "\<lparr>UserType = RegularUser\<rparr>"
  let ?a = "\<lparr>UserIdentity = Some ?identity\<rparr>"
  let ?result = "\<lparr>RetryAfter = 450 * Millisecond\<rparr>"
  have h1: "authorization_of RegularUser = Some ?a"
    by (simp add: authorization_of_def)
  have h2: "UserIdentity ?a = Some ?identity" by simp
  have h3: "UserType ?identity \<noteq> PeerUser" by simp
  have h4: "UserType ?identity \<noteq> TrivyUser" by simp
  have h5: "RateLimitAllows (answering_engine False (450 * Millisecond) None)
       (Context example_request) (RequesterIP example_request) ''account'' ''pull'' 1 0 =
     ((False, ?result, None), Suc 0)"
    by (simp add: answering_engine_def)
  show ?thesis
    using h1 h3 h4 h5 CheckRateLimit_denied [OF h1 h2 h3 h4 h5]
    by auto
qed

section \<open>The inbound cache\<close>

text \<open>
  Claim C6. On a driver whose \<open>Entries\<close> map exists (as after \<open>Init\<close>), \<open>StoreManifest\<close>
  of \<open>(k, b, mt)\<close> at \<open>t0\<close> followed by \<open>LoadManifest\<close> of \<open>k\<close> at \<open>t0 + \<epsilon>\<close> with
  \<open>0 \<le> \<epsilon> < MaxAge\<close> returns exactly \<open>(b, mt)\<close> and no error; neither call fails.
\<close>

theorem store_load_round_trip:
  fixes d :: "'ref InboundCacheDriver"
  assumes "Entries d \<noteq> None" and "0 \<le> \<epsilon>" and "\<epsilon> < sint (MaxAge d)"
  shows "store_then_load d k b mt t0 (t0 + \<epsilon>) = Return (None, b, mt, None)"
proof -
  obtain m where m: "Entries d = Some m" using assms(1) by auto
  have "sint (MaxAge d) \<noteq> - (2 ^ 63)" using assms(2,3) by simp
  then have "sint (- MaxAge d) = - sint (MaxAge d)" by (rule sint_neg_duration)
  then show ?thesis
    using m assms(3)
    by (simp add: store_then_load_def StoreManifest_def LoadManifest_def entry_at_def
        Time_Add_def Time_After_def)
qed

theorem store_load_round_trip_witness:
  "Entries (snd (Init (new_driver :: nat InboundCacheDriver))) \<noteq> None \<and>
   (0::int) \<le> 5 \<and> 5 < sint (MaxAge (snd (Init (new_driver :: nat InboundCacheDriver)))) \<and>
   store_then_load (snd (Init new_driver)) (7::nat) [1, 2, 3] ''application/vnd.x'' 1000 1005 =
     Return (None, [1, 2, 3], ''application/vnd.x'', None)"
proof -
  let ?d = "snd (Init (new_driver :: nat InboundCacheDriver))"
  have h1: "Entries ?d \<noteq> None" by (simp add: Init_def new_driver_def)
  have h2: "(0::int) \<le> 5" by simp
  have h3: "5 < sint (MaxAge ?d)" by (simp add: Init_def new_driver_def sint_six_hours)
  show ?thesis
    using h1 h3 store_load_round_trip [OF h1 h2 h3, of 7 "[1, 2, 3]" "''application/vnd.x''" 1000]
    by simp
qed




text \<open>
  Claim C2, as amended. For every driver whose \<open>MaxAge\<close> is not the minimum \<open>int64\<close>
  (whose negation overflows), every key and every time \<open>now\<close>: \<open>LoadManifest\<close> returns
  the stored entry whenever \<open>now - InsertedAt < MaxAge\<close>, and whenever
  \<open>now - InsertedAt \<ge> MaxAge\<close> it returns what it returns for a key that is absent. So
  after a store at \<open>t0\<close>, a load at \<open>t0 + MaxAge + \<epsilon>\<close> is a miss for every \<open>\<epsilon> \<ge> 0\<close>, and
  a load at an age strictly below \<open>MaxAge\<close> finds the entry.
\<close>

theorem LoadManifest_freshness:
  fixes d :: "'ref InboundCacheDriver"
  assumes "sint (MaxAge d) \<noteq> - (2 ^ 63)"
  shows "(\<forall>entry. entry_at (Entries d) k = Some entry \<and> now - InsertedAt entry < sint (MaxAge d) \<longrightarrow>
            LoadManifest d k now = (Contents entry, MediaType entry, None)) \<and>
         (\<forall>entry. entry_at (Entries d) k = Some entry \<and> sint (MaxAge d) \<le> now - InsertedAt entry \<longrightarrow>
            LoadManifest d k now = ([], [], Some ErrNoRows) \<and>
            LoadManifest d k now =
              LoadManifest (d\<lparr>Entries := map_option (\<lambda>m. m(k := None)) (Entries d)\<rparr>) k now) \<and>
         (\<forall>b mt t0 \<epsilon>. Entries d \<noteq> None \<and> 0 \<le> \<epsilon> \<longrightarrow>
            store_then_load d k b mt t0 (t0 + sint (MaxAge d) + \<epsilon>) =
              Return (None, [], [], Some ErrNoRows)) \<and>
         (\<forall>b mt t0 \<epsilon>. Entries d \<noteq> None \<and> \<epsilon> < sint (MaxAge d) \<longrightarrow>
            store_then_load d k b mt t0 (t0 + \<epsilon>) = Return (None, b, mt, None))"
proof (intro conjI allI impI)
  fix entry
  assume "entry_at (Entries d) k = Some entry \<and> now - InsertedAt entry < sint (MaxAge d)"
  then show "LoadManifest d k now = (Contents entry, MediaType entry, None)"
    using LoadManifest_hit_iff [OF assms, of "InsertedAt entry" now]
    by (simp add: LoadManifest_def)
next
  fix entry
  assume a: "entry_at (Entries d) k = Some entry \<and> sint (MaxAge d) \<le> now - InsertedAt entry"
  then show "LoadManifest d k now = ([], [], Some ErrNoRows)"
    using LoadManifest_hit_iff [OF assms, of "InsertedAt entry" now]
    by (simp add: LoadManifest_def)
  from a show "LoadManifest d k now =
      LoadManifest (d\<lparr>Entries := map_option (\<lambda>m. m(k := None)) (Entries d)\<rparr>) k now"
    using LoadManifest_hit_iff [OF assms, of "InsertedAt entry" now]
    by (cases "Entries d") (simp_all add: LoadManifest_def entry_at_def)
next
  fix b mt t0 and \<epsilon> :: int
  assume a: "Entries d \<noteq> None \<and> 0 \<le> \<epsilon>"
  then obtain m where m: "Entries d = Some m" by auto
  show "store_then_load d k b mt t0 (t0 + sint (MaxAge d) + \<epsilon>) =
      Return (None, [], [], Some ErrNoRows)"
    using m a sint_neg_duration [OF assms]
    by (simp add: store_then_load_def StoreManifest_def LoadManifest_def entry_at_def
        Time_Add_def Time_After_def)
next
  fix b mt t0 and \<epsilon> :: int
  assume a: "Entries d \<noteq> None \<and> \<epsilon> < sint (MaxAge d)"
  then obtain m where m: "Entries d = Some m" by auto
  show "store_then_load d k b mt t0 (t0 + \<epsilon>) = Return (None, b, mt, None)"
    using m a sint_neg_duration [OF assms]
    by (simp add: store_then_load_def StoreManifest_def LoadManifest_def entry_at_def
        Time_Add_def Time_After_def)
qed

theorem LoadManifest_freshness_witness:
  "sint (MaxAge (example_driver (6 * Hour))) \<noteq> - (2 ^ 63) \<and>
   entry_at (Entries (example_driver (6 * Hour))) 7 = Some example_entry \<and>
   21600000000999 - InsertedAt example_entry < sint (MaxAge (example_driver (6 * Hour))) \<and>
   LoadManifest (example_driver (6 * Hour)) 7 21600000000999 =
     ([1, 2, 3], ''application/vnd.x'', None) \<and>
   sint (MaxAge (example_driver (6 * Hour))) \<le> 21600000001000 - InsertedAt example_entry \<and>
   LoadManifest (example_driver (6 * Hour)) 7 21600000001000 = ([], [], Some ErrNoRows) \<and>
   Entries (example_driver (6 * Hour)) \<noteq> None \<and>
   store_then_load (example_driver (6 * Hour)) 7 [4, 5] ''application/vnd.y'' 2000 21600000002000 =
     Return (None, [], [], Some ErrNoRows)"
proof -
  let ?d = "example_driver (6 * Hour)"
  have h1: "sint (MaxAge ?d) \<noteq> - (2 ^ 63)"
    by (simp add: example_driver_def sint_six_hours)
  have h2: "entry_at (Entries ?d) 7 = Some example_entry"
    by (simp add: example_driver_def entry_at_def)
  have h3: "21600000000999 - InsertedAt example_entry < sint (MaxAge ?d)"
    by (simp add: example_driver_def sint_six_hours example_entry_def)
  have h4: "sint (MaxAge ?d) \<le> 21600000001000 - InsertedAt example_entry"
    by (simp add: example_driver_def sint_six_hours example_entry_def)
  have h5: "Entries ?d \<noteq> None" by (simp add: example_driver_def)
  have m: "sint (MaxAge ?d) = 21600000000000"
    by (simp add: example_driver_def sint_six_hours)
  have e: "Contents example_entry = [1, 2, 3]" "MediaType example_entry = ''application/vnd.x''"
    by (simp_all add: example_entry_def)
  from LoadManifest_freshness [OF h1, of 7 21600000000999] h2 h3
  have r1: "LoadManifest ?d 7 21600000000999 = ([1, 2, 3], ''application/vnd.x'', None)"
    unfolding e [symmetric] by blast
  from LoadManifest_freshness [OF h1, of 7 21600000001000] h2 h4
  have r2: "LoadManifest ?d 7 21600000001000 = ([], [], Some ErrNoRows)"
    by blast
  from LoadManifest_freshness [OF h1, of 7 0] h5
  have "store_then_load ?d 7 [4, 5] ''application/vnd.y'' 2000 (2000 + sint (MaxAge ?d) + 0) =
      Return (None, [], [], Some ErrNoRows)"
    by blast
  then have r3: "store_then_load ?d 7 [4, 5] ''application/vnd.y'' 2000 21600000002000 =
      Return (None, [], [], Some ErrNoRows)"
    by (simp add: m)
  show ?thesis using h1 h2 h3 h4 h5 r1 r2 r3 by blast
qed

text \<open>
  Claim C2, as stated, fails at the boundary: with a \<open>MaxAge\<close> of six hours, the value
  that \<open>Init\<close> sets, an entry whose age is exactly six hours satisfies
  \<open>now - InsertedAt \<le> MaxAge\<close>, and the load is a miss.
\<close>

theorem LoadManifest_boundary_counterexample:
  "entry_at (Entries (example_driver (6 * Hour))) 7 = Some example_entry \<and>
   21600000001000 - InsertedAt example_entry \<le> sint (MaxAge (example_driver (6 * Hour))) \<and>
   LoadManifest (example_driver (6 * Hour)) 7 21600000001000 = ([], [], Some ErrNoRows) \<and>
   LoadManifest (example_driver (6 * Hour)) 7 21600000001000 \<noteq>
     (Contents example_entry, MediaType example_entry, None)"
  by (simp add: example_driver_def example_entry_def entry_at_def LoadManifest_def
      Time_Add_def Time_After_def Hour_def)

section \<open>The failure envelope\<close>

text \<open>
  Claim C7. For every code \<open>c\<close> of the closed set and whatever the operands, \<open>c.With("")\<close>
  is the envelope with code \<open>c\<close>, the non-empty message that the message table has for
  \<open>c\<close>, no detail, status 0 and no headers; the status table has an entry for \<open>c\<close>, an
  HTTP error status, and each of the three writing methods sends that status for the
  envelope. For \<open>ErrManifestUnknown\<close> the message is \<open>manifest unknown\<close> and the status
  404; for \<open>ErrDenied\<close> the status is 401, not 403.
\<close>

theorem With_empty_message_defaults:
  assumes "c \<in> set error_codes"
  shows "\<exists>m st. apiErrorMessages c = Some m \<and> m \<noteq> [] \<and>
           apiErrorStatusCodes c = Some st \<and> 400 \<le> st \<and> st < 600 \<and>
           With c [] args = \<lparr>Code = c, Message = m, Detail = None, Status = 0, Headers = None\<rparr> \<and>
           calls (snd (WriteAsRegistryV2ResponseTo (With c [] args) w r)) =
             calls w @ WriteHeader st #
               (if Method r \<noteq> ''HEAD'' then [Write (ErrorsJSON [With c [] args])] else []) \<and>
           calls (snd (WriteAsAuthResponseTo (With c [] args) w)) =
             calls w @ [WriteHeader st, Write (DetailsJSON m)] \<and>
           calls (snd (WriteAsTextTo (With c [] args) w)) =
             calls w @ [WriteHeader st, Write (PlainText (m @ [CHR 0x0A]))] \<and>
           (c = ErrManifestUnknown \<longrightarrow> m = ''manifest unknown'' \<and> st = 404) \<and>
           (c = ErrDenied \<longrightarrow> st = 401 \<and> st \<noteq> 403)"
proof -
  obtain m st where t: "apiErrorMessages c = Some m" "m \<noteq> []"
      "apiErrorStatusCodes c = Some st" "400 \<le> st" "st < 600"
      "c = ErrManifestUnknown \<longrightarrow> m = ''manifest unknown'' \<and> st = 404"
      "c = ErrDenied \<longrightarrow> st = 401"
    using tables_on_codes [OF assms] by blast
  let ?e = "With c [] args"
  have w: "?e = \<lparr>Code = c, Message = m, Detail = None, Status = 0, Headers = None\<rparr>"
    using t(1) by (simp add: With_def message_at_def)
  have s: "Status ?e = 0" "Code ?e = c" "RegistryV2Error_Error ?e = m"
    by (simp_all add: w RegistryV2Error_Error_def)
  have st: "status_at apiErrorStatusCodes c = st"
    using t(3) by (simp add: status_at_def)
  have c1: "calls (snd (WriteAsRegistryV2ResponseTo ?e w r)) =
      calls w @ WriteHeader st # (if Method r \<noteq> ''HEAD'' then [Write (ErrorsJSON [?e])] else [])"
    unfolding write_calls(1) s st by simp
  have c2: "calls (snd (WriteAsAuthResponseTo ?e w)) =
      calls w @ [WriteHeader st, Write (DetailsJSON m)]"
    unfolding write_calls(2) s st by simp
  have c3: "calls (snd (WriteAsTextTo ?e w)) =
      calls w @ [WriteHeader st, Write (PlainText (m @ [CHR 0x0A]))]"
    unfolding write_calls(3) s st by simp
  have d: "c = ErrDenied \<longrightarrow> st = 401 \<and> st \<noteq> 403" using t(7) by simp
  show ?thesis
    using t(1-6) w c1 c2 c3 d by blast
qed

theorem With_empty_message_defaults_witness:
  "ErrDenied \<in> set error_codes \<and>
   With ErrDenied [] NoArgs =
     \<lparr>Code = ''DENIED'', Message = ''requested access to the resource is denied'',
      Detail = None, Status = 0, Headers = None\<rparr> \<and>
   calls (snd (WriteAsAuthResponseTo (With ErrDenied [] NoArgs) new_writer)) =
     [WriteHeader 401, Write (DetailsJSON ''requested access to the resource is denied'')]"
proof -
  have h: "ErrDenied \<in> set error_codes" by (simp add: error_codes_def)
  have tab: "apiErrorMessages ErrDenied = Some ''requested access to the resource is denied''"
    by (simp add: apiErrorMessages_def code_defs)
  obtain m st where
    a: "apiErrorMessages ErrDenied = Some m"
      "With ErrDenied [] NoArgs =
         \<lparr>Code = ErrDenied, Message = m, Detail = None, Status = 0, Headers = None\<rparr>"
      "calls (snd (WriteAsAuthResponseTo (With ErrDenied [] NoArgs) new_writer)) =
         calls new_writer @ [WriteHeader st, Write (DetailsJSON m)]"
      "ErrDenied = ErrDenied \<longrightarrow> st = 401 \<and> st \<noteq> 403"
    using With_empty_message_defaults [OF h, of NoArgs new_writer example_request] by blast
  have m: "m = ''requested access to the resource is denied''" using a(1) tab by simp
  have st: "st = 401" using a(4) by simp
  have c: "calls new_writer = []" by (simp add: new_writer_def)
  show ?thesis
    using h a(2) a(3) by (simp add: m st c ErrDenied_def)
qed

text \<open>
  Claim C9. For every envelope \<open>e\<close> with \<open>Status = 0\<close>, each of
  \<open>WriteAsRegistryV2ResponseTo\<close>, \<open>WriteAsAuthResponseTo\<close> and \<open>WriteAsTextTo\<close> calls
  \<open>WriteHeader\<close> once, with what the status table holds for the code of \<open>e\<close> (its entry
  when the code is of the closed set), and leaves the envelope as it was: after the
  call its status is still 0 and every field is unchanged.
\<close>

theorem writing_leaves_envelope:
  assumes "Status e = 0"
  shows "fst (WriteAsRegistryV2ResponseTo e w r) = e \<and>
         fst (WriteAsAuthResponseTo e w) = e \<and>
         fst (WriteAsTextTo e w) = e \<and>
         Status (fst (WriteAsRegistryV2ResponseTo e w r)) = 0 \<and>
         Status (fst (WriteAsAuthResponseTo e w)) = 0 \<and>
         Status (fst (WriteAsTextTo e w)) = 0 \<and>
         calls (snd (WriteAsRegistryV2ResponseTo e w r)) =
           calls w @ WriteHeader (status_at apiErrorStatusCodes (Code e)) #
             (if Method r \<noteq> ''HEAD'' then [Write (ErrorsJSON [e])] else []) \<and>
         calls (snd (WriteAsAuthResponseTo e w)) =
           calls w @ [WriteHeader (status_at apiErrorStatusCodes (Code e)),
                      Write (DetailsJSON (RegistryV2Error_Error e))] \<and>
         calls (snd (WriteAsTextTo e w)) =
           calls w @ [WriteHeader (status_at apiErrorStatusCodes (Code e)),
                      Write (PlainText (RegistryV2Error_Error e @ [CHR 0x0A]))] \<and>
         (Code e \<in> set error_codes \<longrightarrow>
            apiErrorStatusCodes (Code e) = Some (status_at apiErrorStatusCodes (Code e)))"
proof -
  have f: "fst (WriteAsRegistryV2ResponseTo e w r) = e" "fst (WriteAsAuthResponseTo e w) = e"
      "fst (WriteAsTextTo e w) = e"
    by (simp_all add: WriteAsRegistryV2ResponseTo_def WriteAsAuthResponseTo_def
        WriteAsTextTo_def Let_def)
  have t: "Code e \<in> set error_codes \<longrightarrow>
      apiErrorStatusCodes (Code e) = Some (status_at apiErrorStatusCodes (Code e))"
  proof
    assume "Code e \<in> set error_codes"
    then obtain st where "apiErrorStatusCodes (Code e) = Some st"
      using tables_on_codes by blast
    then show "apiErrorStatusCodes (Code e) = Some (status_at apiErrorStatusCodes (Code e))"
      by (simp add: status_at_def)
  qed
  show ?thesis
    unfolding f write_calls using assms t by simp
qed

theorem writing_leaves_envelope_witness:
  "Status example_envelope = 0 \<and>
   fst (WriteAsRegistryV2ResponseTo example_envelope new_writer example_request) = example_envelope \<and>
   calls (snd (WriteAsRegistryV2ResponseTo example_envelope new_writer example_request)) =
     [WriteHeader 404, Write (ErrorsJSON [example_envelope])] \<and>
   calls (snd (WriteAsTextTo example_envelope new_writer)) =
     [WriteHeader 404, Write (PlainText (''no such repository: library/alpine'' @ [CHR 0x0A]))]"
proof -
  have h: "Status example_envelope = 0" by (simp add: example_envelope_def)
  have s: "status_at apiErrorStatusCodes (Code example_envelope) = 404"
    by (simp add: example_envelope_def status_at_def apiErrorStatusCodes_def code_defs status_defs)
  have m: "Method example_request \<noteq> ''HEAD''" by (simp add: example_request_def)
  have x: "RegistryV2Error_Error example_envelope = ''no such repository: library/alpine''"
    by (simp add: example_envelope_def RegistryV2Error_Error_def)
  have c: "calls new_writer = []" by (simp add: new_writer_def)
  show ?thesis
    using h writing_leaves_envelope [OF h, of new_writer example_request]
    by (simp add: s m x c)
qed

text \<open>
  Claim C8, as amended. For every error on whose chain of wrapped errors there is no
  envelope, \<open>AsRegistryV2Error\<close> returns an envelope with code \<open>UNKNOWN\<close>, for which the
  status table gives 500, no status of its own, and as message the text of the error
  when that text is not empty, the default message \<open>unknown error\<close> when it is empty. For
  every error that is an envelope or wraps one, that envelope is returned as it is.
\<close>

theorem AsRegistryV2Error_cases:
  "(errext_As err = None \<longrightarrow>
      AsRegistryV2Error (Some err) =
        Return \<lparr>Code = ''UNKNOWN'',
                Message = (if error_text err = [] then ''unknown error'' else error_text err),
                Detail = None, Status = 0, Headers = None\<rparr>) \<and>
   apiErrorStatusCodes ''UNKNOWN'' = Some 500 \<and>
   (\<forall>e. errext_As err = Some e \<longrightarrow> AsRegistryV2Error (Some err) = Return e) \<and>
   AsRegistryV2Error (Some (EnvelopeError e0)) = Return e0 \<and>
   AsRegistryV2Error (Some (Wrapped s (EnvelopeError e0))) = Return e0"
proof -
  have a: "errext_As err = None \<longrightarrow>
      AsRegistryV2Error (Some err) =
        Return \<lparr>Code = ''UNKNOWN'',
                Message = (if error_text err = [] then ''unknown error'' else error_text err),
                Detail = None, Status = 0, Headers = None\<rparr>"
    using message_Unknown by (simp add: AsRegistryV2Error_def With_def ErrUnknown_def)
  have b: "apiErrorStatusCodes ''UNKNOWN'' = Some 500"
    using status_Unknown by (simp add: ErrUnknown_def)
  have c: "\<forall>e. errext_As err = Some e \<longrightarrow> AsRegistryV2Error (Some err) = Return e"
    by (simp add: AsRegistryV2Error_def)
  have d: "AsRegistryV2Error (Some (EnvelopeError e0)) = Return e0"
      "AsRegistryV2Error (Some (Wrapped s (EnvelopeError e0))) = Return e0"
    by (simp_all add: AsRegistryV2Error_def)
  show ?thesis using a b c d by blast
qed

theorem AsRegistryV2Error_cases_witness:
  "errext_As (Wrapped ''reading manifest: sql: no rows in result set'' ErrNoRows) = None \<and>
   AsRegistryV2Error (Some (Wrapped ''reading manifest: sql: no rows in result set'' ErrNoRows)) =
     Return \<lparr>Code = ''UNKNOWN'', Message = ''reading manifest: sql: no rows in result set'',
             Detail = None, Status = 0, Headers = None\<rparr> \<and>
   errext_As (Wrapped ''while pulling'' (EnvelopeError example_envelope)) = Some example_envelope \<and>
   AsRegistryV2Error (Some (Wrapped ''while pulling'' (EnvelopeError example_envelope))) =
     Return example_envelope"
proof -
  have h1: "errext_As (Wrapped ''reading manifest: sql: no rows in result set'' ErrNoRows) = None"
    by simp
  have h2: "errext_As (Wrapped ''while pulling'' (EnvelopeError example_envelope)) =
      Some example_envelope"
    by simp
  show ?thesis
    using h1 h2
      AsRegistryV2Error_cases
        [of "Wrapped ''reading manifest: sql: no rows in result set'' ErrNoRows"]
      AsRegistryV2Error_cases [of "Wrapped ''while pulling'' (EnvelopeError example_envelope)"]
    by simp
qed

text \<open>
  Claim C8, as stated, fails for an error whose text is empty: \<open>With\<close> replaces an empty
  message by the default of the code, so the message is \<open>unknown error\<close> and not the
  text of the error.
\<close>

theorem AsRegistryV2Error_empty_text_counterexample:
  "errext_As (ErrorString []) = None \<and>
   error_text (ErrorString []) = [] \<and>
   AsRegistryV2Error (Some (ErrorString [])) =
     Return \<lparr>Code = ''UNKNOWN'', Message = ''unknown error'', Detail = None, Status = 0,
             Headers = None\<rparr> \<and>
   ''unknown error'' \<noteq> error_text (ErrorString [])"
  using message_Unknown by (simp add: AsRegistryV2Error_def With_def ErrUnknown_def)

end
